theory Spec2Isabelle
  imports Main "HOL-Library.Word"
begin

section \<open>MicroCoaster switch track firmware (src/esp/sim-switch-track.cpp)\<close>

text \<open>
  The firmware is one translation unit with global variables, a \<open>setup\<close> function, a
  polling \<open>loop\<close> and a WebSocket event callback. The embedding threads one record
  through every function: the globals of the sketch, the two \<open>static\<close> locals of
  \<open>loop\<close>, the hardware the sketch drives (pins, serial port, WiFi radio, WebSocket client)
  and the readings the hardware gives back (clock, radio status, signal strength, heap).
\<close>

subsection \<open>JSON documents (ArduinoJson)\<close>

text \<open>
  A \<open>JsonDocument\<close> holds a JSON value. Floating point numbers do not occur in any
  document the sketch builds and are left out of the value type. Object members are kept in
  insertion order.
\<close>

datatype json =
    JNull
  | JBool bool
  | JInt int
  | JStr string
  | JArr "json list"
  | JObj "(string \<times> json) list"

text \<open>\<open>v[key]\<close>: the member of an object, the null value for a missing key or a non-object.\<close>

fun member_of :: "string \<Rightarrow> json \<Rightarrow> json" where
  "member_of key (JObj kvs) = (case map_of kvs key of Some v \<Rightarrow> v | None \<Rightarrow> JNull)"
| "member_of key _ = JNull"

text \<open>Decimal printing, as \<open>printf("%d")\<close> and the JSON serializer do it.\<close>

definition digit_char :: "nat \<Rightarrow> char" where
  "digit_char d = ''0123456789'' ! (d mod 10)"

fun dec_nat :: "nat \<Rightarrow> string" where
  "dec_nat n = (if n < 10 then [digit_char n] else dec_nat (n div 10) @ [digit_char n])"

definition dec_int :: "int \<Rightarrow> string" where
  "dec_int i = (if i < 0 then ''-'' @ dec_nat (nat (- i)) else dec_nat (nat i))"

text \<open>
  String quoting of the serializer: the double quote and the backslash are escaped, and so
  are the control characters that have a short escape.
\<close>

fun escape_char :: "char \<Rightarrow> string" where
  "escape_char c =
     (if c = CHR 0x22 then [CHR 0x5C, CHR 0x22]
      else if c = CHR 0x5C then [CHR 0x5C, CHR 0x5C]
      else if c = CHR 0x08 then [CHR 0x5C, CHR ''b'']
      else if c = CHR 0x0C then [CHR 0x5C, CHR ''f'']
      else if c = CHR 0x0A then [CHR 0x5C, CHR ''n'']
      else if c = CHR 0x0D then [CHR 0x5C, CHR ''r'']
      else if c = CHR 0x09 then [CHR 0x5C, CHR ''t'']
      else [c])"

definition quote :: "string \<Rightarrow> string" where
  "quote t = [CHR 0x22] @ concat (map escape_char t) @ [CHR 0x22]"

fun serializeJson :: "json \<Rightarrow> string"
  and serializeElems :: "json list \<Rightarrow> string"
  and serializeMembers :: "(string \<times> json) list \<Rightarrow> string" where
  "serializeJson JNull = ''null''"
| "serializeJson (JBool b) = (if b then ''true'' else ''false'')"
| "serializeJson (JInt i) = dec_int i"
| "serializeJson (JStr t) = quote t"
| "serializeJson (JArr vs) = ''['' @ serializeElems vs @ '']''"
| "serializeJson (JObj kvs) = ''{'' @ serializeMembers kvs @ ''}''"
| "serializeElems [] = []"
| "serializeElems [v] = serializeJson v"
| "serializeElems (v # w # vs) = serializeJson v @ '','' @ serializeElems (w # vs)"
| "serializeMembers [] = []"
| "serializeMembers [(k, v)] = quote k @ '':'' @ serializeJson v"
| "serializeMembers ((k, v) # m # kvs) =
     quote k @ '':'' @ serializeJson v @ '','' @ serializeMembers (m # kvs)"

text \<open>
  \<open>v.as<String>()\<close>, which is also what the implicit conversion in
  \<open>String command = doc["data"]["command"]\<close> calls: the text of a string value, and the
  serialized form of any other value, so \<open>null\<close> for a missing member.
\<close>

fun as_String :: "json \<Rightarrow> string" where
  "as_String (JStr t) = t"
| "as_String v = serializeJson v"


text \<open>
  \<open>deserializeJson\<close> is library code. The sketch ignores its error code and reads the
  document it leaves behind, so the parser is a parameter of the model: the function from
  the payload text to that document. A \<open>JsonDocument\<close> declared without a capacity is
  that of ArduinoJson 7, whose parser copies what it keeps and leaves the payload as it is:
  the event callback and \<open>handleCommand\<close>, which parse the same payload one after the
  other, get the same document.
\<close>

type_synonym parser = "string \<Rightarrow> json"

text \<open>
  The library function itself returns an error code beside the document it fills. The
  sketch calls it as a statement and drops the code, so what reaches the sketch of a
  deserializer is its document.
\<close>

datatype DeserializationError =
  Ok | EmptyInput | IncompleteInput | InvalidInput | NoMemory | TooDeep

type_synonym deserializer = "string \<Rightarrow> DeserializationError \<times> json"

definition document_of :: "deserializer \<Rightarrow> parser" where
  "document_of d payload = snd (d payload)"

subsection \<open>Configuration constants\<close>

definition ssid :: string where "ssid = ''Freebox-73A72A''"
definition password :: string where "password = ''ChezCatherineetVincent''"
definition server_host :: string where "server_host = ''192.168.1.23''"
definition server_port :: nat where "server_port = 3000"
definition websocket_path :: string where "websocket_path = ''/esp32''"
definition MODULE_ID :: string where "MODULE_ID = ''MC-0001-ST''"
definition MODULE_PASSWORD :: string where
  "MODULE_PASSWORD = ''F674iaRftVsHGKOA8hq3TI93HQHUaYqZ''"
definition LED_LEFT_PIN :: int where "LED_LEFT_PIN = 2"
definition LED_RIGHT_PIN :: int where "LED_RIGHT_PIN = 4"

subsection \<open>Hardware and libraries\<close>

datatype level = LOW | HIGH

datatype pin_mode = OUTPUT

datatype wl_status =
    WL_NO_SHIELD | WL_IDLE_STATUS | WL_NO_SSID_AVAIL | WL_SCAN_COMPLETED
  | WL_CONNECTED | WL_CONNECT_FAILED | WL_CONNECTION_LOST | WL_DISCONNECTED

fun wl_status_code :: "wl_status \<Rightarrow> int" where
  "wl_status_code WL_NO_SHIELD = 255"
| "wl_status_code WL_IDLE_STATUS = 0"
| "wl_status_code WL_NO_SSID_AVAIL = 1"
| "wl_status_code WL_SCAN_COMPLETED = 2"
| "wl_status_code WL_CONNECTED = 3"
| "wl_status_code WL_CONNECT_FAILED = 4"
| "wl_status_code WL_CONNECTION_LOST = 5"
| "wl_status_code WL_DISCONNECTED = 6"

datatype wifi_call =
    WiFi_mode_STA
  | WiFi_setSleep bool
  | WiFi_setAutoReconnect bool
  | WiFi_persistent bool
  | WiFi_begin string string

datatype WStype_t =
    WStype_ERROR | WStype_DISCONNECTED | WStype_CONNECTED | WStype_TEXT | WStype_BIN
  | WStype_FRAGMENT_TEXT_START | WStype_FRAGMENT_BIN_START | WStype_FRAGMENT
  | WStype_FRAGMENT_FIN | WStype_PING | WStype_PONG

text \<open>
  The WebSocket client object: what \<open>begin\<close>, \<open>onEvent\<close>, \<open>setReconnectInterval\<close> and
  \<open>enableHeartbeat\<close> configured, and the frames handed to \<open>sendTXT\<close>, oldest first. A
  frame is recorded as the document that was serialized into it, together with the value
  \<open>isAuthenticated\<close> had at the moment of the call.
\<close>

type_synonym frame = "bool \<times> json"

record ws_client =
  endpoint :: "(string \<times> nat \<times> string) option"
  handler_set :: bool
  reconnectInterval :: "nat option"
  heartbeatConfig :: "(nat \<times> nat \<times> nat) option"
  outbox :: "frame list"

record device =
  currentPosition :: string
  uptimeStart :: "32 word"
  isAuthenticated :: bool
  lastWiFiCheck :: "32 word"
  lastHeartbeat :: "32 word"
  webSocket :: ws_client
  pinModes :: "int \<Rightarrow> pin_mode option"
  pins :: "int \<Rightarrow> level"
  serial :: string
  wifiCalls :: "wifi_call list"
  millis :: "32 word"
  wifiStatus :: wl_status
  wifiRSSI :: "8 word"
  localIP :: string
  freeHeap :: "32 word"

text \<open>
  Serial output is the byte stream written to the port. The emoji and the accents of the
  sketch's trace texts are outside ASCII and are left out of the literals below (an accented
  letter is written without its accent); nothing in the sketch reads the stream back.
\<close>

definition Serial_print :: "string \<Rightarrow> device \<Rightarrow> device" where
  "Serial_print t s = s\<lparr>serial := serial s @ t\<rparr>"

definition Serial_println :: "string \<Rightarrow> device \<Rightarrow> device" where
  "Serial_println t s = Serial_print (t @ [CHR 0x0D, CHR 0x0A]) s"

definition digitalWrite :: "int \<Rightarrow> level \<Rightarrow> device \<Rightarrow> device" where
  "digitalWrite pin v s = s\<lparr>pins := (pins s)(pin := v)\<rparr>"

definition pinMode :: "int \<Rightarrow> pin_mode \<Rightarrow> device \<Rightarrow> device" where
  "pinMode pin m s = s\<lparr>pinModes := (pinModes s)(pin \<mapsto> m)\<rparr>"

text \<open>\<open>delay\<close> blocks for the given number of milliseconds: the clock moves on by that much.\<close>

definition delay :: "32 word \<Rightarrow> device \<Rightarrow> device" where
  "delay ms s = s\<lparr>millis := millis s + ms\<rparr>"

definition WiFi_call :: "wifi_call \<Rightarrow> device \<Rightarrow> device" where
  "WiFi_call c s = s\<lparr>wifiCalls := wifiCalls s @ [c]\<rparr>"

definition sendTXT :: "json \<Rightarrow> device \<Rightarrow> device" where
  "sendTXT doc s =
     s\<lparr>webSocket := (webSocket s)\<lparr>outbox := outbox (webSocket s) @ [(isAuthenticated s, doc)]\<rparr>\<rparr>"

definition sent :: "device \<Rightarrow> json list" where
  "sent s = map snd (outbox (webSocket s))"

subsection \<open>Actuator outputs\<close>

definition updateLEDs :: "device \<Rightarrow> device" where
  "updateLEDs s =
     (if currentPosition s = ''left'' then
        Serial_println ''[SWITCH TRACK] LED GAUCHE allumee''
          (digitalWrite LED_RIGHT_PIN LOW (digitalWrite LED_LEFT_PIN HIGH s))
      else if currentPosition s = ''right'' then
        Serial_println ''[SWITCH TRACK] LED DROITE allumee''
          (digitalWrite LED_RIGHT_PIN HIGH (digitalWrite LED_LEFT_PIN LOW s))
      else s)"

subsection \<open>Outbound messages\<close>

definition uptime :: "device \<Rightarrow> json" where
  "uptime s = JInt (uint (millis s - uptimeStart s))"

definition sendCommandResponse :: "string \<Rightarrow> string \<Rightarrow> string \<Rightarrow> device \<Rightarrow> device" where
  "sendCommandResponse command status position s =
     (if \<not> isAuthenticated s then s
      else
        let doc = JObj [(''type'', JStr ''command_response''),
                        (''moduleId'', JStr MODULE_ID),
                        (''password'', JStr MODULE_PASSWORD),
                        (''command'', JStr command),
                        (''status'', JStr status),
                        (''position'', JStr position)];
            s = sendTXT doc s
        in Serial_print (''[SWITCH TRACK] Reponse: '' @ command @ '' -> '' @ status @ [CHR 0x0A]) s)"

definition sendHeartbeat :: "device \<Rightarrow> device" where
  "sendHeartbeat s =
     (if \<not> isAuthenticated s then s
      else
        let doc = JObj [(''type'', JStr ''heartbeat''),
                        (''moduleId'', JStr MODULE_ID),
                        (''password'', JStr MODULE_PASSWORD),
                        (''uptime'', uptime s),
                        (''position'', JStr (currentPosition s)),
                        (''wifiRSSI'', JInt (sint (wifiRSSI s))),
                        (''freeHeap'', JInt (uint (freeHeap s)))];
            s = sendTXT doc s
        in Serial_println ''[SWITCH TRACK] Heartbeat envoye'' s)"

definition sendTelemetry :: "device \<Rightarrow> device" where
  "sendTelemetry s =
     (if \<not> isAuthenticated s then s
      else
        let doc = JObj [(''type'', JStr ''telemetry''),
                        (''moduleId'', JStr MODULE_ID),
                        (''password'', JStr MODULE_PASSWORD),
                        (''uptime'', uptime s),
                        (''position'', JStr (currentPosition s)),
                        (''status'', JStr ''operational'')];
            s = sendTXT doc s
        in Serial_println ''[SWITCH TRACK] Telemetrie envoyee'' s)"

subsection \<open>Session controller\<close>

definition authenticateModule :: "device \<Rightarrow> device" where
  "authenticateModule s =
     (let s = Serial_println ''[SWITCH TRACK] Authentification WebSocket natif...'' s;
          authData = JObj [(''type'', JStr ''module_identify''),
                           (''moduleId'', JStr MODULE_ID),
                           (''password'', JStr MODULE_PASSWORD),
                           (''moduleType'', JStr ''switch-track''),
                           (''uptime'', uptime s),
                           (''position'', JStr (currentPosition s))];
          authMessage = serializeJson authData;
          s = sendTXT authData s
      in Serial_println (''[SWITCH TRACK] Authentification envoyee: '' @ authMessage) s)"

definition handleConnected :: "string \<Rightarrow> device \<Rightarrow> device" where
  "handleConnected payload s =
     (let s = Serial_println ''[SWITCH TRACK] Module authentifie WebSocket natif'' s;
          s = s\<lparr>isAuthenticated := True\<rparr>;
          s = updateLEDs s;
          s = delay 1000 s
      in sendTelemetry s)"

definition handleCommand :: "parser \<Rightarrow> string \<Rightarrow> device \<Rightarrow> device" where
  "handleCommand deserializeJson payload s =
     (if \<not> isAuthenticated s then
        Serial_println ''[SWITCH TRACK] Commande refusee - non authentifie'' s
      else
        let doc = deserializeJson payload;
            command = as_String (member_of ''command'' (member_of ''data'' doc));
            s = Serial_println (''[SWITCH TRACK] Commande recue: '' @ command) s;
            newPosition = currentPosition s;
            status = ''success'';
            (newPosition, status, s) =
              (if command = ''switch_left'' \<or> command = ''left'' \<or> command = ''switch_to_A'' then
                 (''left'', status,
                  updateLEDs
                    (Serial_println ''[SWITCH TRACK] Aiguillage bascule vers la GAUCHE'' s))
               else if command = ''switch_right'' \<or> command = ''right''
                         \<or> command = ''switch_to_B'' then
                 (''right'', status,
                  updateLEDs
                    (Serial_println ''[SWITCH TRACK] Aiguillage bascule vers la DROITE'' s))
               else if command = ''get_position'' then
                 (newPosition, status,
                  Serial_println (''[SWITCH TRACK] Position actuelle: '' @ currentPosition s) s)
               else
                 (newPosition, ''unknown_command'',
                  Serial_println (''[SWITCH TRACK] Commande inconnue: '' @ command) s));
            s = s\<lparr>currentPosition := newPosition\<rparr>;
            s = sendCommandResponse command status (currentPosition s) s
        in Serial_println (''[SWITCH TRACK] Commande executee: '' @ currentPosition s) s)"

definition handleError :: "string \<Rightarrow> device \<Rightarrow> device" where
  "handleError payload s =
     (let s = Serial_println ''[SWITCH TRACK] Erreur recue du serveur'' s;
          s = s\<lparr>isAuthenticated := False\<rparr>;
          s = digitalWrite LED_LEFT_PIN LOW s
      in digitalWrite LED_RIGHT_PIN LOW s)"

definition webSocketEvent :: "parser \<Rightarrow> WStype_t \<Rightarrow> string \<Rightarrow> device \<Rightarrow> device" where
  "webSocketEvent deserializeJson type payload s =
     (case type of
        WStype_CONNECTED \<Rightarrow>
          authenticateModule
            (Serial_println ''[SWITCH TRACK] Connecte au serveur WebSocket'' s)
      | WStype_DISCONNECTED \<Rightarrow>
          (let s = Serial_println ''[SWITCH TRACK] Deconnexion du serveur'' s;
               s = s\<lparr>isAuthenticated := False\<rparr>;
               s = digitalWrite LED_LEFT_PIN LOW s
           in digitalWrite LED_RIGHT_PIN LOW s)
      | WStype_TEXT \<Rightarrow>
          (let s = Serial_println (''[SWITCH TRACK] Message recu: '' @ payload) s;
               doc = deserializeJson payload;
               msgType = as_String (member_of ''type'' doc)
           in if msgType = ''connected'' then handleConnected payload s
              else if msgType = ''command'' then handleCommand deserializeJson payload s
              else if msgType = ''error'' then handleError payload s
              else
                Serial_println (''[SWITCH TRACK] Message complet: '' @ payload)
                  (Serial_println
                     (''[SWITCH TRACK] Evenement non gere: '' @ [CHR 0x27] @ msgType @ [CHR 0x27])
                     s))
      | _ \<Rightarrow> s)"

subsection \<open>Link acquisition and transport set-up\<close>

text \<open>
  The radio is environment: \<open>radio k\<close> is the status \<open>WiFi.status()\<close> reports at the
  \<open>k\<close>-th test of the waiting loop that follows \<open>WiFi.begin\<close>. The test after the loop
  reads the status the last test of the loop saw.
\<close>

function connectWiFi_wait :: "(nat \<Rightarrow> wl_status) \<Rightarrow> nat \<Rightarrow> device \<Rightarrow> device" where
  "connectWiFi_wait radio attempts s =
     (if radio attempts \<noteq> WL_CONNECTED \<and> attempts < 20 then
        connectWiFi_wait radio (attempts + 1)
          (Serial_print ''.'' (delay 500 (s\<lparr>wifiStatus := radio attempts\<rparr>)))
      else s\<lparr>wifiStatus := radio attempts\<rparr>)"
  by pat_completeness auto
termination
  by (relation "measure (\<lambda>(radio, attempts, s). 20 - attempts)") auto

definition connectWiFi :: "(nat \<Rightarrow> wl_status) \<Rightarrow> device \<Rightarrow> device" where
  "connectWiFi radio s =
     (let s = Serial_print ''[SWITCH TRACK] Connexion WiFi a '' s;
          s = Serial_println ssid s;
          s = WiFi_call WiFi_mode_STA s;
          s = WiFi_call (WiFi_setSleep False) s;
          s = WiFi_call (WiFi_setAutoReconnect True) s;
          s = WiFi_call (WiFi_persistent True) s;
          s = WiFi_call (WiFi_begin ssid password) s;
          s = connectWiFi_wait radio 0 s
      in if wifiStatus s = WL_CONNECTED then
           (let s = Serial_println [] s;
                s = Serial_print ''[SWITCH TRACK] WiFi connecte - IP: '' s;
                s = Serial_println (localIP s) s;
                s = Serial_print ''[SWITCH TRACK] Signal WiFi: '' s;
                s = Serial_print (dec_int (sint (wifiRSSI s))) s
            in Serial_println '' dBm'' s)
         else
           (let s = Serial_println [] s;
                s = Serial_println ''[SWITCH TRACK] Echec connexion WiFi'' s
            in delay 5000 s))"

definition connectSocket :: "device \<Rightarrow> device" where
  "connectSocket s =
     (let s = Serial_println ''[SWITCH TRACK] Connexion WebSocket natif...'' s;
          s = Serial_println (''[SWITCH TRACK] Module ID: '' @ MODULE_ID) s;
          s = Serial_println
                (''[SWITCH TRACK] Password: '' @ take 8 MODULE_PASSWORD @ ''...'') s;
          s = s\<lparr>webSocket := (webSocket s)
                 \<lparr>endpoint := Some (server_host, server_port, websocket_path),
                  handler_set := True,
                  reconnectInterval := Some 5000,
                  heartbeatConfig := Some (15000, 3000, 2)\<rparr>\<rparr>;
          s = Serial_print
                (''[SWITCH TRACK] WebSocket: ws://'' @ server_host @ '':''
                   @ dec_nat server_port @ websocket_path @ [CHR 0x0A]) s
      in Serial_println ''[SWITCH TRACK] ESP32 Switch Track pret (Architecture hybride)!'' s)"

subsection \<open>Boot and the polling loop\<close>

text \<open>
  The function \<open>setup()\<close> of the sketch. \<open>Serial.begin\<close> opens the port and writes
  nothing.
\<close>

definition setup_sketch :: "(nat \<Rightarrow> wl_status) \<Rightarrow> device \<Rightarrow> device" where
  "setup_sketch radio s =
     (let s = Serial_println ''[SWITCH TRACK] ESP32 Switch Track demarrant...'' s;
          s = s\<lparr>uptimeStart := millis s\<rparr>;
          s = pinMode LED_LEFT_PIN OUTPUT s;
          s = pinMode LED_RIGHT_PIN OUTPUT s;
          s = updateLEDs s;
          s = Serial_println (''[SWITCH TRACK] Position initiale: '' @ currentPosition s) s;
          s = connectWiFi radio s
      in connectSocket s)"

text \<open>
  \<open>webSocket.loop()\<close> is where the client library calls the event callback: once for each
  event that is pending, in order.
\<close>

definition webSocket_loop :: "parser \<Rightarrow> (WStype_t \<times> string) list \<Rightarrow> device \<Rightarrow> device" where
  "webSocket_loop deserializeJson events s =
     foldl (\<lambda>s (type, payload). webSocketEvent deserializeJson type payload s) s events"

definition loop ::
  "parser \<Rightarrow> (WStype_t \<times> string) list \<Rightarrow> (nat \<Rightarrow> wl_status) \<Rightarrow> device \<Rightarrow> device" where
  "loop deserializeJson events radio s =
     (let now = millis s;
          s = (if now - lastWiFiCheck s > 10000 then
                 Serial_print
                   (''[SWITCH TRACK] WiFi: '' @ dec_int (wl_status_code (wifiStatus s))
                      @ '' - RSSI: '' @ dec_int (sint (wifiRSSI s)) @ '' dBm'' @ [CHR 0x0A])
                   (s\<lparr>lastWiFiCheck := now\<rparr>)
               else s);
          s = (if wifiStatus s = WL_CONNECTED then
                 (let s = webSocket_loop deserializeJson events s
                  in if isAuthenticated s \<and> now - lastHeartbeat s > 30000 then
                       (sendHeartbeat s)\<lparr>lastHeartbeat := now\<rparr>
                     else s)
               else
                 (let s = Serial_println ''[SWITCH TRACK] WiFi deconnecte - reconnexion...'' s;
                      s = s\<lparr>isAuthenticated := False\<rparr>;
                      s = digitalWrite LED_LEFT_PIN LOW s;
                      s = digitalWrite LED_RIGHT_PIN LOW s;
                      s = connectWiFi radio s
                  in if wifiStatus s = WL_CONNECTED then connectSocket s else s))
      in delay 100 s)"

text \<open>
  The state the initializers of the globals give, on a board whose clock, radio and heap
  read as given; the output latches are low after reset.
\<close>

definition power_on :: "32 word \<Rightarrow> wl_status \<Rightarrow> 8 word \<Rightarrow> string \<Rightarrow> 32 word \<Rightarrow> device" where
  "power_on t w r ip h =
     \<lparr>currentPosition = ''left'', uptimeStart = 0, isAuthenticated = False,
      lastWiFiCheck = 0, lastHeartbeat = 0,
      webSocket = \<lparr>endpoint = None, handler_set = False, reconnectInterval = None,
                   heartbeatConfig = None, outbox = []\<rparr>,
      pinModes = (\<lambda>_. None), pins = (\<lambda>_. LOW), serial = [], wifiCalls = [],
      millis = t, wifiStatus = w, wifiRSSI = r, localIP = ip, freeHeap = h\<rparr>"

text \<open>
  A run of the device: after \<open>setup\<close>, iterations of \<open>loop\<close>, each with the events the
  transport delivers during it, and between them the readings of the environment change.
\<close>

datatype input =
    Loop "(WStype_t \<times> string) list" "nat \<Rightarrow> wl_status"
  | Readings "32 word" wl_status "8 word" string "32 word"

fun step :: "parser \<Rightarrow> device \<Rightarrow> input \<Rightarrow> device" where
  "step deserializeJson s (Loop events radio) = loop deserializeJson events radio s"
| "step deserializeJson s (Readings t w r ip h) =
     s\<lparr>millis := t, wifiStatus := w, wifiRSSI := r, localIP := ip, freeHeap := h\<rparr>"

definition run :: "parser \<Rightarrow> input list \<Rightarrow> device \<Rightarrow> device" where
  "run deserializeJson inputs s = foldl (step deserializeJson) s inputs"

text \<open>A frame sent while \<open>isAuthenticated\<close> was false is the authentication request.\<close>

definition unauth_frames_ok :: "device \<Rightarrow> bool" where
  "unauth_frames_ok s =
     list_all (\<lambda>(auth, doc). auth \<or> member_of ''type'' doc = JStr ''module_identify'')
       (outbox (webSocket s))"

subsection \<open>Notions the properties are stated with\<close>

text \<open>
  The two strings the sketch reads out of an inbound text frame: the \<open>type\<close>
  discriminator and \<open>data.command\<close>.
\<close>

definition msgType :: "parser \<Rightarrow> string \<Rightarrow> string" where
  "msgType deserializeJson payload = as_String (member_of ''type'' (deserializeJson payload))"

definition commandField :: "parser \<Rightarrow> string \<Rightarrow> string" where
  "commandField deserializeJson payload =
     as_String (member_of ''command'' (member_of ''data'' (deserializeJson payload)))"

text \<open>What \<open>Serial.println\<close> writes for a text: the text and a line end.\<close>

definition println_text :: "string \<Rightarrow> string" where
  "println_text t = t @ [CHR 0x0D, CHR 0x0A]"

definition recognized_commands :: "string list" where
  "recognized_commands =
     [''switch_left'', ''left'', ''switch_to_A'', ''switch_right'', ''right'', ''switch_to_B'',
      ''get_position'']"

text \<open>The position a recognized command asks for; \<open>get_position\<close> asks for none.\<close>

definition target_position :: "string \<Rightarrow> string \<Rightarrow> string" where
  "target_position command position =
     (if command \<in> {''switch_left'', ''left'', ''switch_to_A''} then ''left''
      else if command \<in> {''switch_right'', ''right'', ''switch_to_B''} then ''right''
      else position)"

definition command_response :: "string \<Rightarrow> string \<Rightarrow> string \<Rightarrow> json" where
  "command_response command status position =
     JObj [(''type'', JStr ''command_response''),
           (''moduleId'', JStr MODULE_ID),
           (''password'', JStr MODULE_PASSWORD),
           (''command'', JStr command),
           (''status'', JStr status),
           (''position'', JStr position)]"

definition telemetry :: "json \<Rightarrow> string \<Rightarrow> json" where
  "telemetry up position =
     JObj [(''type'', JStr ''telemetry''),
           (''moduleId'', JStr MODULE_ID),
           (''password'', JStr MODULE_PASSWORD),
           (''uptime'', up),
           (''position'', JStr position),
           (''status'', JStr ''operational'')]"

definition authentication_request :: "string \<Rightarrow> json \<Rightarrow> string \<Rightarrow> json" where
  "authentication_request kind up position =
     JObj [(''type'', JStr kind),
           (''moduleId'', JStr MODULE_ID),
           (''password'', JStr MODULE_PASSWORD),
           (''moduleType'', JStr ''switch-track''),
           (''uptime'', up),
           (''position'', JStr position)]"

text \<open>
  What \<open>updateLEDs\<close> does for a position: the levels it drives and the line it traces.
\<close>

definition led_pins :: "string \<Rightarrow> (int \<Rightarrow> level) \<Rightarrow> (int \<Rightarrow> level)" where
  "led_pins position p =
     (if position = ''left'' then p(LED_LEFT_PIN := HIGH, LED_RIGHT_PIN := LOW)
      else if position = ''right'' then p(LED_LEFT_PIN := LOW, LED_RIGHT_PIN := HIGH)
      else p)"

definition led_trace :: "string \<Rightarrow> string" where
  "led_trace position =
     (if position = ''left'' then println_text ''[SWITCH TRACK] LED GAUCHE allumee''
      else if position = ''right'' then println_text ''[SWITCH TRACK] LED DROITE allumee''
      else [])"

subsection \<open>A test bench\<close>

text \<open>
  A parser for examples: it knows the given documents by their serialized text and leaves
  the document empty on any other payload.
\<close>

definition parser_of :: "json list \<Rightarrow> parser" where
  "parser_of docs payload =
     (case List.find (\<lambda>doc. serializeJson doc = payload) docs of
        Some doc \<Rightarrow> doc
      | None \<Rightarrow> JNull)"

definition command_message :: "string \<Rightarrow> json" where
  "command_message c =
     JObj [(''type'', JStr ''command''), (''data'', JObj [(''command'', JStr c)])]"

definition typed_message :: "string \<Rightarrow> json" where
  "typed_message kind = JObj [(''type'', JStr kind)]"

definition connected_message :: "(string \<times> json) list \<Rightarrow> json" where
  "connected_message extra = JObj ((''type'', JStr ''connected'') # extra)"

definition bench :: device where
  "bench = power_on 5000 WL_CONNECTED (- 60) ''192.168.1.50'' 200000"

definition bench_auth :: device where
  "bench_auth = bench\<lparr>isAuthenticated := True, pins := (pins bench)(LED_LEFT_PIN := HIGH)\<rparr>"

text \<open>
  A session on the bench: the board boots with the access point in reach, and the transport
  delivers the given events during the first iteration of \<open>loop\<close>.
\<close>

definition bench_parser :: parser where
  "bench_parser =
     parser_of [connected_message [], command_message ''switch_right'', typed_message ''command'']"

definition session :: "(WStype_t \<times> string) list \<Rightarrow> device" where
  "session events =
     run bench_parser [Loop events (\<lambda>_. WL_CONNECTED)] (setup_sketch (\<lambda>_. WL_CONNECTED) bench)"

text \<open>
  What is looked at after a session: the position, the authentication flag, the levels of
  the left and the right indicator pin, and type, command, status and position of each
  frame sent.
\<close>

definition observe ::
  "device \<Rightarrow> string \<times> bool \<times> level \<times> level \<times> (json \<times> json \<times> json \<times> json) list" where
  "observe s =
     (currentPosition s, isAuthenticated s, pins s LED_LEFT_PIN, pins s LED_RIGHT_PIN,
      map (\<lambda>doc. (member_of ''type'' doc, member_of ''command'' doc, member_of ''status'' doc,
                   member_of ''position'' doc)) (sent s))"

text \<open>
  Deserializers for examples, given by their outcome on the payloads an example uses: the
  error code and the document left. \<open>reading\<close> knows one payload. \<open>keeping\<close> knows the
  server's acknowledgement and a \<open>switch_right\<close> command that lost its last character, the
  closing brace: it reports the incomplete input and keeps the members it has read.
  \<open>session_of\<close> is a session with the parser of one's choice.
\<close>

definition deserializer_of ::
  "(string \<times> DeserializationError \<times> json) list \<Rightarrow> deserializer" where
  "deserializer_of table payload =
     (case map_of table payload of Some outcome \<Rightarrow> outcome | None \<Rightarrow> (InvalidInput, JNull))"

definition reading :: "string \<Rightarrow> DeserializationError \<Rightarrow> json \<Rightarrow> deserializer" where
  "reading payload e doc = deserializer_of [(payload, e, doc)]"




definition scenario :: "input list" where
  "scenario =
     [Loop [(WStype_CONNECTED, []), (WStype_TEXT, serializeJson (connected_message []))]
        (\<lambda>_. WL_CONNECTED),
      Readings 40000 WL_CONNECTED (- 60) ''192.168.1.50'' 200000,
      Loop [(WStype_TEXT, serializeJson (command_message ''switch_right''))]
        (\<lambda>_. WL_CONNECTED)]"

section \<open>Properties\<close>

subsection \<open>Auxiliary facts\<close>

lemma Serial_println_eq: "Serial_println t s = s\<lparr>serial := serial s @ println_text t\<rparr>"
  by (simp add: Serial_println_def Serial_print_def println_text_def)

lemmas prims = Serial_print_def Serial_println_eq digitalWrite_def delay_def sendTXT_def

lemma parser_of_hd: "parser_of (doc # docs) (serializeJson doc) = doc"
  by (simp add: parser_of_def)

lemma command_message_type [simp]:
  "msgType (parser_of (command_message c # docs)) (serializeJson (command_message c)) = ''command''"
  by (simp add: msgType_def parser_of_hd) (simp add: command_message_def)

lemma command_message_command [simp]:
  "commandField (parser_of (command_message c # docs)) (serializeJson (command_message c)) = c"
  by (simp add: commandField_def parser_of_hd) (simp add: command_message_def)

lemma typed_message_type [simp]:
  "msgType (parser_of (typed_message kind # docs)) (serializeJson (typed_message kind)) = kind"
  by (simp add: msgType_def parser_of_hd) (simp add: typed_message_def)

lemma typed_message_command [simp]:
  "commandField (parser_of (typed_message kind # docs)) (serializeJson (typed_message kind))
     = ''null''"
  by (simp add: commandField_def parser_of_hd) (simp add: typed_message_def)

lemma bench_simps [simp]:
  "isAuthenticated bench = False" "currentPosition bench = ''left''"
  "outbox (webSocket bench) = []" "pins bench = (\<lambda>_. LOW)"
  "isAuthenticated bench_auth = True" "currentPosition bench_auth = ''left''"
  "outbox (webSocket bench_auth) = []"
  "pins bench_auth LED_LEFT_PIN = HIGH" "pins bench_auth LED_RIGHT_PIN = LOW"
  by (simp_all add: bench_def bench_auth_def power_on_def LED_LEFT_PIN_def LED_RIGHT_PIN_def)

lemma text_command:
  "msgType dj payload = ''command'' \<Longrightarrow>
   webSocketEvent dj WStype_TEXT payload s =
     handleCommand dj payload (Serial_println (''[SWITCH TRACK] Message recu: '' @ payload) s)"
  by (simp add: webSocketEvent_def msgType_def Let_def)

lemma text_connected:
  "msgType dj payload = ''connected'' \<Longrightarrow>
   webSocketEvent dj WStype_TEXT payload s =
     handleConnected payload (Serial_println (''[SWITCH TRACK] Message recu: '' @ payload) s)"
  by (simp add: webSocketEvent_def msgType_def Let_def)

lemma text_error:
  "msgType dj payload = ''error'' \<Longrightarrow>
   webSocketEvent dj WStype_TEXT payload s =
     handleError payload (Serial_println (''[SWITCH TRACK] Message recu: '' @ payload) s)"
  by (simp add: webSocketEvent_def msgType_def Let_def)

lemma handleCommand_unauth:
  "\<not> isAuthenticated s \<Longrightarrow> handleCommand dj payload s =
     s\<lparr>serial := serial s @ println_text ''[SWITCH TRACK] Commande refusee - non authentifie''\<rparr>"
  by (simp add: handleCommand_def prims)

lemma handleCommand_unknown:
  assumes "isAuthenticated s" and "commandField dj payload \<notin> set recognized_commands"
  shows "handleCommand dj payload s =
           s\<lparr>serial := serial s
                  @ println_text (''[SWITCH TRACK] Commande recue: '' @ commandField dj payload)
                  @ println_text (''[SWITCH TRACK] Commande inconnue: '' @ commandField dj payload)
                  @ ''[SWITCH TRACK] Reponse: '' @ commandField dj payload
                  @ '' -> unknown_command'' @ [CHR 0x0A]
                  @ println_text (''[SWITCH TRACK] Commande executee: '' @ currentPosition s),
              webSocket := (webSocket s)\<lparr>outbox := outbox (webSocket s)
                  @ [(True, command_response (commandField dj payload) ''unknown_command''
                              (currentPosition s))]\<rparr>\<rparr>"
  using assms
  by (simp add: handleCommand_def commandField_def recognized_commands_def Let_def
      sendCommandResponse_def command_response_def prims)

lemma handleCommand_recognized:
  assumes "isAuthenticated s" and "commandField dj payload \<in> set recognized_commands"
  shows "isAuthenticated (handleCommand dj payload s)"
    and "currentPosition (handleCommand dj payload s) =
           target_position (commandField dj payload) (currentPosition s)"
    and "outbox (webSocket (handleCommand dj payload s)) =
           outbox (webSocket s)
             @ [(True, command_response (commandField dj payload) ''success''
                         (target_position (commandField dj payload) (currentPosition s)))]"
  using assms
  by (auto simp: handleCommand_def commandField_def recognized_commands_def Let_def
      target_position_def updateLEDs_def sendCommandResponse_def command_response_def prims)

lemma target_position_idem:
  "target_position c (target_position c p) = target_position c p"
  by (simp add: target_position_def)

lemma text_unhandled:
  assumes "msgType dj payload \<noteq> ''connected''" and "msgType dj payload \<noteq> ''command''"
    and "msgType dj payload \<noteq> ''error''"
  shows "webSocketEvent dj WStype_TEXT payload s =
           s\<lparr>serial := serial s
                  @ println_text (''[SWITCH TRACK] Message recu: '' @ payload)
                  @ println_text (''[SWITCH TRACK] Evenement non gere: '' @ [CHR 0x27]
                                    @ msgType dj payload @ [CHR 0x27])
                  @ println_text (''[SWITCH TRACK] Message complet: '' @ payload)\<rparr>"
  using assms by (simp add: webSocketEvent_def msgType_def Let_def prims)

lemma updateLEDs_eq:
  "updateLEDs s =
     s\<lparr>pins := led_pins (currentPosition s) (pins s),
        serial := serial s @ led_trace (currentPosition s)\<rparr>"
  by (simp add: updateLEDs_def led_pins_def led_trace_def prims)

lemma handleConnected_eq:
  "handleConnected payload s =
     s\<lparr>isAuthenticated := True,
        pins := led_pins (currentPosition s) (pins s),
        millis := millis s + 1000,
        webSocket := (webSocket s)\<lparr>outbox := outbox (webSocket s)
          @ [(True, telemetry (JInt (uint (millis s + 1000 - uptimeStart s)))
                      (currentPosition s))]\<rparr>,
        serial := serial s
          @ println_text ''[SWITCH TRACK] Module authentifie WebSocket natif''
          @ led_trace (currentPosition s)
          @ println_text ''[SWITCH TRACK] Telemetrie envoyee''\<rparr>"
  by (simp add: handleConnected_def Let_def updateLEDs_eq sendTelemetry_def telemetry_def
      uptime_def prims)

lemma sendTXT_ok:
  "unauth_frames_ok s \<Longrightarrow> isAuthenticated s \<or> member_of ''type'' doc = JStr ''module_identify''
     \<Longrightarrow> unauth_frames_ok (sendTXT doc s)"
  by (auto simp: unauth_frames_ok_def sendTXT_def)

lemma senders_unauth:
  "\<not> isAuthenticated s \<Longrightarrow> sendHeartbeat s = s"
  "\<not> isAuthenticated s \<Longrightarrow> sendTelemetry s = s"
  "\<not> isAuthenticated s \<Longrightarrow> sendCommandResponse c st p s = s"
  by (simp_all add: sendHeartbeat_def sendTelemetry_def sendCommandResponse_def)

lemma sendHeartbeat_ok: "unauth_frames_ok s \<Longrightarrow> unauth_frames_ok (sendHeartbeat s)"
  by (simp add: sendHeartbeat_def Let_def unauth_frames_ok_def prims)

lemma handleCommand_ok: "unauth_frames_ok s \<Longrightarrow> unauth_frames_ok (handleCommand dj p s)"
  by (simp add: handleCommand_def Let_def updateLEDs_eq sendCommandResponse_def
      unauth_frames_ok_def prims)

lemma webSocketEvent_ok:
  assumes ok: "unauth_frames_ok s"
  shows "unauth_frames_ok (webSocketEvent dj ty p s)"
proof (cases ty)
  case WStype_CONNECTED
  with ok show ?thesis
    by (simp add: webSocketEvent_def authenticateModule_def Let_def unauth_frames_ok_def prims)
next
  case WStype_DISCONNECTED
  with ok show ?thesis
    by (simp add: webSocketEvent_def Let_def unauth_frames_ok_def prims)
next
  case WStype_TEXT
  let ?s = "Serial_println (''[SWITCH TRACK] Message recu: '' @ p) s"
  have ok': "unauth_frames_ok ?s" using ok by (simp add: unauth_frames_ok_def prims)
  consider (a) "msgType dj p = ''connected''" | (b) "msgType dj p = ''command''"
    | (c) "msgType dj p = ''error''"
    | (d) "msgType dj p \<noteq> ''connected''" "msgType dj p \<noteq> ''command''" "msgType dj p \<noteq> ''error''"
    by blast
  then show ?thesis
  proof cases
    case a
    with ok show ?thesis
      unfolding WStype_TEXT text_connected [OF a] handleConnected_eq
      by (simp add: unauth_frames_ok_def prims)
  next
    case b
    show ?thesis
      unfolding WStype_TEXT text_command [OF b] by (rule handleCommand_ok [OF ok'])
  next
    case c
    with ok show ?thesis
      unfolding WStype_TEXT text_error [OF c]
      by (simp add: handleError_def Let_def unauth_frames_ok_def prims)
  next
    case d
    with ok show ?thesis
      unfolding WStype_TEXT text_unhandled [OF d]
      by (simp add: unauth_frames_ok_def)
  qed
qed (simp_all add: webSocketEvent_def ok)

lemma webSocket_loop_ok:
  "unauth_frames_ok s \<Longrightarrow> unauth_frames_ok (webSocket_loop dj events s)"
  unfolding webSocket_loop_def
  by (induction events arbitrary: s) (auto simp: webSocketEvent_ok)

lemma connectWiFi_wait_webSocket:
  "webSocket (connectWiFi_wait radio attempts s) = webSocket s"
proof (induction radio attempts s rule: connectWiFi_wait.induct)
  case (1 radio attempts s)
  show ?case
    by (subst connectWiFi_wait.simps) (simp add: 1 prims)
qed

lemma connectWiFi_webSocket: "webSocket (connectWiFi radio s) = webSocket s"
  by (simp add: connectWiFi_def Let_def connectWiFi_wait_webSocket WiFi_call_def prims)

lemma connectSocket_outbox: "outbox (webSocket (connectSocket s)) = outbox (webSocket s)"
  by (simp add: connectSocket_def Let_def prims)

lemma setup_outbox: "outbox (webSocket (setup_sketch radio s)) = outbox (webSocket s)"
  by (simp add: setup_sketch_def Let_def connectSocket_outbox connectWiFi_webSocket
      updateLEDs_eq pinMode_def prims)

lemma loop_ok: "unauth_frames_ok s \<Longrightarrow> unauth_frames_ok (loop dj events radio s)"
proof -
  assume ok: "unauth_frames_ok s"
  have d: "unauth_frames_ok (delay n x) = unauth_frames_ok x" for n x
    by (simp add: unauth_frames_ok_def prims)
  have h: "unauth_frames_ok (x\<lparr>lastHeartbeat := n\<rparr>) = unauth_frames_ok x" for n x
    by (simp add: unauth_frames_ok_def)
  have w: "unauth_frames_ok (x\<lparr>lastWiFiCheck := n\<rparr>) = unauth_frames_ok x" for n x
    by (simp add: unauth_frames_ok_def)
  have p: "unauth_frames_ok (Serial_print t x) = unauth_frames_ok x" for t x
    by (simp add: unauth_frames_ok_def prims)
  have cs: "unauth_frames_ok (connectSocket x) = unauth_frames_ok x" for x
    by (simp add: unauth_frames_ok_def connectSocket_outbox)
  have cw: "unauth_frames_ok (connectWiFi radio x) = unauth_frames_ok x" for x
    by (simp add: unauth_frames_ok_def connectWiFi_webSocket)
  have down: "unauth_frames_ok
       (digitalWrite a LOW (digitalWrite b LOW ((Serial_println t x)\<lparr>isAuthenticated := False\<rparr>)))
       = unauth_frames_ok x" for a b t x
    by (simp add: unauth_frames_ok_def prims)
  show ?thesis
    using ok
    by (simp add: loop_def Let_def d h w p cs cw down webSocket_loop_ok sendHeartbeat_ok)
qed

lemma run_ok: "unauth_frames_ok s \<Longrightarrow> unauth_frames_ok (run dj inputs s)"
  unfolding run_def
proof (induction inputs arbitrary: s)
  case Nil
  then show ?case by simp
next
  case (Cons i inputs)
  have "unauth_frames_ok (step dj s i)"
    using Cons.prems by (cases i) (simp_all add: loop_ok, simp add: unauth_frames_ok_def)
  then show ?case by (simp add: Cons.IH)
qed

lemma boot_ok: "unauth_frames_ok (setup_sketch radio (power_on t w r ip h))"
  by (simp add: unauth_frames_ok_def setup_outbox) (simp add: power_on_def)

lemma loop_idle_outbox:
  assumes "\<not> isAuthenticated s" and "wifiStatus s = WL_CONNECTED"
  shows "outbox (webSocket (loop dj [] radio s)) = outbox (webSocket s)"
  using assms by (simp add: loop_def Let_def webSocket_loop_def prims)







lemma deserializer_of_hd: "deserializer_of ((k, outcome) # table) k = outcome"
  by (simp add: deserializer_of_def)

lemma document_of_hd [simp]: "document_of (deserializer_of ((k, e, doc) # table)) k = doc"
  by (simp add: document_of_def deserializer_of_hd)


lemma reading_at [simp]:
  "reading payload e doc payload = (e, doc)" "document_of (reading payload e doc) payload = doc"
  by (simp_all add: reading_def deserializer_of_hd)

subsection \<open>Claims\<close>

text \<open>
  C1. A command message that arrives while \<open>isAuthenticated\<close> is false is rejected without
  side effects: the call only writes trace lines to the serial port, so the actuator
  position, the output pins and the frames sent (in particular: no command response with
  status success) are what they were. This holds for \<open>handleCommand\<close> on any payload and for
  the event callback on any text frame whose type is \<open>command\<close>.
\<close>

theorem unauthenticated_command_rejected:
  assumes "\<not> isAuthenticated s"
  shows "handleCommand dj payload s =
           s\<lparr>serial := serial s
                  @ println_text ''[SWITCH TRACK] Commande refusee - non authentifie''\<rparr>
       \<and> (msgType dj payload = ''command'' \<longrightarrow>
            webSocketEvent dj WStype_TEXT payload s =
              s\<lparr>serial := serial s
                     @ println_text (''[SWITCH TRACK] Message recu: '' @ payload)
                     @ println_text ''[SWITCH TRACK] Commande refusee - non authentifie''\<rparr>)"
  using assms by (simp add: text_command handleCommand_unauth prims)

theorem unauthenticated_command_rejected_witness:
  "\<not> isAuthenticated bench
   \<and> msgType (parser_of [command_message ''switch_right''])
        (serializeJson (command_message ''switch_right'')) = ''command''
   \<and> currentPosition (webSocketEvent (parser_of [command_message ''switch_right'']) WStype_TEXT
        (serializeJson (command_message ''switch_right'')) bench) = ''left''
   \<and> pins (webSocketEvent (parser_of [command_message ''switch_right'']) WStype_TEXT
        (serializeJson (command_message ''switch_right'')) bench) = pins bench
   \<and> sent (webSocketEvent (parser_of [command_message ''switch_right'']) WStype_TEXT
        (serializeJson (command_message ''switch_right'')) bench) = []"
  using unauthenticated_command_rejected [of bench "parser_of [command_message ''switch_right'']"
      "serializeJson (command_message ''switch_right'')"]
  by (simp add: sent_def)

text \<open>
  C2. While \<open>isAuthenticated\<close> is false the only application message sent is the
  authentication request. In every run of the device (boot, then any iterations of \<open>loop\<close>
  with any events and any readings of the environment) each frame that was handed to the
  transport while the flag was false is the authentication request. With the flag false,
  \<open>sendHeartbeat\<close>, \<open>sendTelemetry\<close> and \<open>sendCommandResponse\<close> return the state as it
  is, and an iteration of \<open>loop\<close> in which no event arrives sends nothing, whether or not
  the heartbeat interval has elapsed.
\<close>

theorem unauthenticated_sends_only_authentication:
  "unauth_frames_ok (run dj inputs (setup_sketch radio (power_on t w r ip h)))
   \<and> (\<not> isAuthenticated s \<longrightarrow>
        sendHeartbeat s = s \<and> sendTelemetry s = s \<and> sendCommandResponse c st p s = s
        \<and> (wifiStatus s = WL_CONNECTED \<longrightarrow>
             outbox (webSocket (loop dj [] radio' s)) = outbox (webSocket s)))"
  by (simp add: run_ok boot_ok senders_unauth loop_idle_outbox)

theorem unauthenticated_sends_only_authentication_witness:
  "\<not> isAuthenticated (bench\<lparr>millis := 40000\<rparr>)
   \<and> wifiStatus (bench\<lparr>millis := 40000\<rparr>) = WL_CONNECTED
   \<and> 30000 < millis (bench\<lparr>millis := 40000\<rparr>) - lastHeartbeat (bench\<lparr>millis := 40000\<rparr>)
   \<and> sendHeartbeat (bench\<lparr>millis := 40000\<rparr>) = bench\<lparr>millis := 40000\<rparr>
   \<and> sent (loop bench_parser [] (\<lambda>_. WL_CONNECTED) (bench\<lparr>millis := 40000\<rparr>)) = []
   \<and> unauth_frames_ok
        (run bench_parser scenario
           (setup_sketch (\<lambda>_. WL_CONNECTED)
              (power_on 5000 WL_CONNECTED (- 60) ''192.168.1.50'' 200000)))"
  using unauthenticated_sends_only_authentication
    [of bench_parser scenario "\<lambda>_. WL_CONNECTED" 5000 WL_CONNECTED "- 60" "''192.168.1.50''"
      200000 "bench\<lparr>millis := 40000\<rparr>" "''x''" "''y''" "''z''" "\<lambda>_. WL_CONNECTED"]
  by (simp add: sent_def) (simp add: bench_def power_on_def)

text \<open>
  C3, on the bench: the board boots in position left, the transport opens, the server
  acknowledges, and the command \<open>switch_right\<close> arrives. The position becomes right and
  the command response says success and right, but \<open>updateLEDs\<close> is called before the new
  position is stored, so it drives the pins for the old position: the left indicator stays
  on and the right indicator stays off.
\<close>

theorem switch_right_keeps_left_indicator:
  "observe (session [(WStype_CONNECTED, []),
       (WStype_TEXT, serializeJson (connected_message [])),
       (WStype_TEXT, serializeJson (command_message ''switch_right''))]) =
     (''right'', True, HIGH, LOW,
      [(JStr ''module_identify'', JNull, JNull, JStr ''left''),
       (JStr ''telemetry'', JNull, JStr ''operational'', JStr ''left''),
       (JStr ''command_response'', JStr ''switch_right'', JStr ''success'', JStr ''right'')])"
  by code_simp

text \<open>
  C4, as stated, on the bench: the board boots and the transport opens. The types of the
  frames sent are not the single type \<open>identify\<close>.
\<close>

theorem identify_kind_counterexample:
  "map (member_of ''type'') (sent (session [(WStype_CONNECTED, [])])) \<noteq> [JStr ''identify'']"
  by code_simp

text \<open>
  C4, amended. On the transport's connected event, in any state, the device sends exactly
  one frame: the authentication request, whose type is \<open>module_identify\<close> and which carries
  the module identifier, the credential, the module class \<open>switch-track\<close>, the uptime
  (the clock minus \<open>uptimeStart\<close>) and the current actuator position. Position, pins and
  authentication flag are unchanged.
\<close>

theorem connected_event_sends_module_identify:
  "outbox (webSocket (webSocketEvent dj WStype_CONNECTED payload s)) =
     outbox (webSocket s)
       @ [(isAuthenticated s,
           authentication_request ''module_identify''
             (JInt (uint (millis s - uptimeStart s))) (currentPosition s))]
   \<and> currentPosition (webSocketEvent dj WStype_CONNECTED payload s) = currentPosition s
   \<and> pins (webSocketEvent dj WStype_CONNECTED payload s) = pins s
   \<and> isAuthenticated (webSocketEvent dj WStype_CONNECTED payload s) = isAuthenticated s"
  by (simp add: webSocketEvent_def authenticateModule_def authentication_request_def
      uptime_def Let_def prims)

text \<open>
  C5. A server message of type \<open>error\<close> clears \<open>isAuthenticated\<close>, drives both indicator
  pins low and writes two trace lines; nothing else changes: the actuator position is kept
  and the WebSocket client is not touched (nothing is sent, the connection is not closed or
  reopened), so the session is open and unauthenticated. \<open>handleError\<close> does the same for
  any payload.
\<close>

theorem server_error_deauthenticates:
  "handleError payload s =
     s\<lparr>isAuthenticated := False,
        pins := (pins s)(LED_LEFT_PIN := LOW, LED_RIGHT_PIN := LOW),
        serial := serial s @ println_text ''[SWITCH TRACK] Erreur recue du serveur''\<rparr>
   \<and> (msgType dj payload = ''error'' \<longrightarrow>
        webSocketEvent dj WStype_TEXT payload s =
          s\<lparr>isAuthenticated := False,
             pins := (pins s)(LED_LEFT_PIN := LOW, LED_RIGHT_PIN := LOW),
             serial := serial s @ println_text (''[SWITCH TRACK] Message recu: '' @ payload)
                         @ println_text ''[SWITCH TRACK] Erreur recue du serveur''\<rparr>)"
  by (simp add: text_error handleError_def Let_def prims)

theorem server_error_deauthenticates_witness:
  "msgType (parser_of [typed_message ''error'']) (serializeJson (typed_message ''error'')) = ''error''
   \<and> \<not> isAuthenticated (webSocketEvent (parser_of [typed_message ''error'']) WStype_TEXT
          (serializeJson (typed_message ''error'')) bench_auth)
   \<and> pins (webSocketEvent (parser_of [typed_message ''error'']) WStype_TEXT
          (serializeJson (typed_message ''error'')) bench_auth) LED_LEFT_PIN = LOW
   \<and> pins (webSocketEvent (parser_of [typed_message ''error'']) WStype_TEXT
          (serializeJson (typed_message ''error'')) bench_auth) LED_RIGHT_PIN = LOW
   \<and> currentPosition (webSocketEvent (parser_of [typed_message ''error'']) WStype_TEXT
          (serializeJson (typed_message ''error'')) bench_auth) = ''left''
   \<and> webSocket (webSocketEvent (parser_of [typed_message ''error'']) WStype_TEXT
          (serializeJson (typed_message ''error'')) bench_auth) = webSocket bench_auth"
  using server_error_deauthenticates [of "serializeJson (typed_message ''error'')" bench_auth
      "parser_of [typed_message ''error'']"]
  by (simp add: LED_LEFT_PIN_def LED_RIGHT_PIN_def)

text \<open>
  C6. The transport's disconnected event, in any state, clears \<open>isAuthenticated\<close> and drives
  both indicator pins low; it writes one trace line and changes nothing else, so the
  actuator position is kept.
\<close>

theorem disconnected_closes_session:
  "webSocketEvent dj WStype_DISCONNECTED payload s =
     s\<lparr>isAuthenticated := False,
        pins := (pins s)(LED_LEFT_PIN := LOW, LED_RIGHT_PIN := LOW),
        serial := serial s @ println_text ''[SWITCH TRACK] Deconnexion du serveur''\<rparr>"
  by (simp add: webSocketEvent_def Let_def prims)

text \<open>
  C7. A command outside the recognized set, handled by an authenticated device, leaves the
  actuator position and the output pins as they were and is answered: exactly one command
  response is sent, carrying the command, the status \<open>unknown_command\<close> and the unchanged
  position.
\<close>

theorem unknown_command_answered:
  assumes "isAuthenticated s" and "commandField dj payload \<notin> set recognized_commands"
  shows "currentPosition (handleCommand dj payload s) = currentPosition s
       \<and> pins (handleCommand dj payload s) = pins s
       \<and> outbox (webSocket (handleCommand dj payload s)) =
           outbox (webSocket s)
             @ [(True, command_response (commandField dj payload) ''unknown_command''
                         (currentPosition s))]"
  by (simp add: handleCommand_unknown [OF assms])

theorem unknown_command_answered_witness:
  "isAuthenticated bench_auth
   \<and> commandField (parser_of [command_message ''nonsense''])
        (serializeJson (command_message ''nonsense'')) \<notin> set recognized_commands
   \<and> currentPosition (handleCommand (parser_of [command_message ''nonsense''])
        (serializeJson (command_message ''nonsense'')) bench_auth) = ''left''
   \<and> sent (handleCommand (parser_of [command_message ''nonsense''])
        (serializeJson (command_message ''nonsense'')) bench_auth) =
        [command_response ''nonsense'' ''unknown_command'' ''left'']"
  using unknown_command_answered [of bench_auth "parser_of [command_message ''nonsense'']"
      "serializeJson (command_message ''nonsense'')"]
  by (simp add: recognized_commands_def sent_def)




text \<open>
  C9. Every recognized command is idempotent on the actuator position: handled twice in
  succession by an authenticated device it leaves the position where handling it once
  leaves it, and each of the two calls sends exactly one command response, with status
  success and that position.
\<close>

theorem recognized_command_idempotent:
  assumes "isAuthenticated s" and "commandField dj payload \<in> set recognized_commands"
  shows "currentPosition (handleCommand dj payload (handleCommand dj payload s)) =
           currentPosition (handleCommand dj payload s)
       \<and> outbox (webSocket (handleCommand dj payload s)) =
           outbox (webSocket s)
             @ [(True, command_response (commandField dj payload) ''success''
                         (currentPosition (handleCommand dj payload s)))]
       \<and> outbox (webSocket (handleCommand dj payload (handleCommand dj payload s))) =
           outbox (webSocket (handleCommand dj payload s))
             @ [(True, command_response (commandField dj payload) ''success''
                         (currentPosition (handleCommand dj payload s)))]"
proof -
  let ?s1 = "handleCommand dj payload s"
  note once = handleCommand_recognized [OF assms]
  note twice = handleCommand_recognized [OF once(1) assms(2)]
  show ?thesis
    by (simp add: once(2,3) twice(2,3) target_position_idem)
qed

theorem recognized_command_idempotent_witness:
  "isAuthenticated bench_auth
   \<and> commandField (parser_of [command_message ''switch_to_B''])
        (serializeJson (command_message ''switch_to_B'')) \<in> set recognized_commands
   \<and> currentPosition (handleCommand (parser_of [command_message ''switch_to_B''])
        (serializeJson (command_message ''switch_to_B''))
        (handleCommand (parser_of [command_message ''switch_to_B''])
           (serializeJson (command_message ''switch_to_B'')) bench_auth)) = ''right''
   \<and> sent (handleCommand (parser_of [command_message ''switch_to_B''])
        (serializeJson (command_message ''switch_to_B''))
        (handleCommand (parser_of [command_message ''switch_to_B''])
           (serializeJson (command_message ''switch_to_B'')) bench_auth)) =
       [command_response ''switch_to_B'' ''success'' ''right'',
        command_response ''switch_to_B'' ''success'' ''right'']"
proof -
  have r: "commandField (parser_of [command_message ''switch_to_B''])
        (serializeJson (command_message ''switch_to_B'')) \<in> set recognized_commands"
    by (simp add: recognized_commands_def)
  have a: "isAuthenticated bench_auth" by simp
  have p: "currentPosition (handleCommand (parser_of [command_message ''switch_to_B''])
        (serializeJson (command_message ''switch_to_B'')) bench_auth) = ''right''"
    using handleCommand_recognized(2) [OF a r] by (simp add: target_position_def)
  show ?thesis
    using recognized_command_idempotent [OF a r] r p by (simp add: sent_def)
qed

text \<open>
  C10. Authentication success depends on the type discriminator alone. Two text frames
  whose type is \<open>connected\<close> take the device from one state to states that agree in
  everything but the serial trace (which echoes each payload): the device is authenticated
  and has sent exactly one frame, a telemetry message with status \<open>operational\<close> and the
  current position, stamped one second (the settle delay) after the arrival.
\<close>

theorem connected_depends_on_type_only:
  assumes "msgType dj p1 = ''connected''" and "msgType dj p2 = ''connected''"
  shows "(webSocketEvent dj WStype_TEXT p1 s)\<lparr>serial := []\<rparr> =
           (webSocketEvent dj WStype_TEXT p2 s)\<lparr>serial := []\<rparr>
       \<and> isAuthenticated (webSocketEvent dj WStype_TEXT p1 s)
       \<and> currentPosition (webSocketEvent dj WStype_TEXT p1 s) = currentPosition s
       \<and> outbox (webSocket (webSocketEvent dj WStype_TEXT p1 s)) =
           outbox (webSocket s)
             @ [(True, telemetry (JInt (uint (millis s + 1000 - uptimeStart s)))
                         (currentPosition s))]"
  using assms
  by (simp add: text_connected handleConnected_eq prims)

theorem connected_depends_on_type_only_witness:
  "msgType (parser_of [connected_message [], connected_message [(''status'', JStr ''denied'')]])
     (serializeJson (connected_message [])) = ''connected''
   \<and> msgType (parser_of [connected_message [], connected_message [(''status'', JStr ''denied'')]])
     (serializeJson (connected_message [(''status'', JStr ''denied'')])) = ''connected''
   \<and> isAuthenticated (webSocketEvent
        (parser_of [connected_message [], connected_message [(''status'', JStr ''denied'')]])
        WStype_TEXT (serializeJson (connected_message [])) bench)
   \<and> sent (webSocketEvent
        (parser_of [connected_message [], connected_message [(''status'', JStr ''denied'')]])
        WStype_TEXT (serializeJson (connected_message [])) bench) =
       [telemetry (JInt 6000) ''left'']
   \<and> sent (webSocketEvent
        (parser_of [connected_message [], connected_message [(''status'', JStr ''denied'')]])
        WStype_TEXT (serializeJson (connected_message [(''status'', JStr ''denied'')])) bench) =
       [telemetry (JInt 6000) ''left'']"
proof -
  let ?dj = "parser_of [connected_message [], connected_message [(''status'', JStr ''denied'')]]"
  have m1: "msgType ?dj (serializeJson (connected_message [])) = ''connected''"
    by (simp add: msgType_def parser_of_hd) (simp add: connected_message_def)
  have m2: "msgType ?dj (serializeJson (connected_message [(''status'', JStr ''denied'')]))
              = ''connected''"
    by (simp add: msgType_def parser_of_def connected_message_def quote_def)
  have b: "uint (millis bench + 1000 - uptimeStart bench) = 6000"
    by (simp add: bench_def power_on_def)
  show ?thesis
    using connected_depends_on_type_only [OF m1 m2, of bench]
      connected_depends_on_type_only [OF m2 m1, of bench] m1 m2
    by (simp add: sent_def b)
qed

end
